theory Spec2Isabelle
  imports Complex_Main "HOL-Library.Sublist" "HOL-Library.AList"
begin

section \<open>Strings and paths\<close>

text \<open>
  Both scripts work on \<^verbatim>\<open>pathlib.Path\<close> values.  A path is modelled by its
  \<^verbatim>\<open>parts\<close> tuple, a list of components; the components below the root of a
  traversal are file and directory names.  Strings are lists of 8-bit characters, and
  \<^verbatim>\<open>str.lower\<close> is modelled on the ASCII letters (other characters are kept).
\<close>

type_synonym path = "string list"

definition lower_char :: "char \<Rightarrow> char" where
  "lower_char c =
     (let n = (of_char c :: nat) in if 65 \<le> n \<and> n \<le> 90 then char_of (n + 32) else c)"

definition lower :: "string \<Rightarrow> string" where
  "lower s = map lower_char s"

definition name :: "path \<Rightarrow> string" where
  "name p = (if p = [] then [] else last p)"

definition parent :: "path \<Rightarrow> path" where
  "parent p = butlast p"

text \<open>
  \<^verbatim>\<open>PurePath.suffix\<close>: with \<open>i\<close> the index of the last dot of the name, the
  suffix is \<^verbatim>\<open>name[i:]\<close> when \<^verbatim>\<open>0 < i < len(name) - 1\<close> and the empty
  string otherwise.  Below, \<open>r\<close> holds the characters after the last dot, reversed, so
  that \<open>i = length n - 1 - length r\<close> whenever the name has a dot.
\<close>

definition name_suffix :: "string \<Rightarrow> string" where
  "name_suffix n =
     (let r = takeWhile (\<lambda>c. c \<noteq> CHR ''.'') (rev n)
      in if r \<noteq> [] \<and> length r + 1 < length n then CHR ''.'' # rev r else [])"

definition suffix_of :: "path \<Rightarrow> string" where
  "suffix_of p = name_suffix (name p)"

text \<open>
  \<^verbatim>\<open>PurePath.with_suffix\<close>: the old suffix, when there is one, is cut off the
  name and the new one is appended.  (pathlib raises \<^verbatim>\<open>ValueError\<close> on a path with
  an empty name; both scripts call it only on files that passed the extension filter,
  whose names are not empty.)
\<close>

definition with_suffix :: "path \<Rightarrow> string \<Rightarrow> path" where
  "with_suffix p s =
     (let n = name p; old = name_suffix n
      in parent p @ [(if old = [] then n else take (length n - length old) n) @ s])"

text \<open>\<^verbatim>\<open>str(path)\<close>, for messages: the components joined by slashes.\<close>

fun path_str :: "path \<Rightarrow> string" where
  "path_str [] = ''.''"
| "path_str [c] = c"
| "path_str (c # cs) = (if c = ''/'' then c @ path_str cs else c @ ''/'' @ path_str cs)"



section \<open>Traversal filters\<close>

text \<open>\<^verbatim>\<open>convert_to_webp.py\<close>, lines 25 to 33.\<close>

definition CONVERT_EXTS :: "string set" where
  "CONVERT_EXTS = {''.jpg'', ''.jpeg'', ''.png'', ''.tif'', ''.tiff'', ''.bmp'', ''.gif''}"

definition WEBP_EXTS :: "string set" where
  "WEBP_EXTS = {''.webp''}"

definition is_in_folder_named :: "path \<Rightarrow> string \<Rightarrow> bool" where
  "is_in_folder_named p folder_name =
     (let folder_name = lower folder_name
      in list_ex (\<lambda>part. lower part = folder_name) p)"

text \<open>\<^verbatim>\<open>make_thumbnails.py\<close>, lines 25 and 26.\<close>

definition IMAGE_EXTS :: "string set" where
  "IMAGE_EXTS =
     {''.jpg'', ''.jpeg'', ''.png'', ''.webp'', ''.tif'', ''.tiff'', ''.bmp'', ''.gif''}"

definition THUMB_DIR_NAME :: string where
  "THUMB_DIR_NAME = ''thumbnails''"

section \<open>Exceptions, images and the image library\<close>

text \<open>
  The exceptions of class \<^verbatim>\<open>Exception\<close> that the operating system and the
  image library raise; each carries its message (\<^verbatim>\<open>str(e)\<close>).
\<close>

datatype exn =
    FileNotFoundError string
  | FileExistsError string
  | IsADirectoryError string
  | NotADirectoryError string
  | PermissionError string
  | UnidentifiedImageError string
  | ValueError string
  | OSError string

fun exn_str :: "exn \<Rightarrow> string" where
  "exn_str (FileNotFoundError m) = m"
| "exn_str (FileExistsError m) = m"
| "exn_str (IsADirectoryError m) = m"
| "exn_str (NotADirectoryError m) = m"
| "exn_str (PermissionError m) = m"
| "exn_str (UnidentifiedImageError m) = m"
| "exn_str (ValueError m) = m"
| "exn_str (OSError m) = m"

text \<open>
  Of a decoded image the scripts read \<^verbatim>\<open>im.mode\<close> (a string) and the dictionary
  \<^verbatim>\<open>im.info\<close>; the raster itself is only handed from one library call to the next
  and is not represented.
\<close>

record image =
  mode :: string
  info :: "string \<rightharpoonup> string"

text \<open>\<^verbatim>\<open>Image.convert(mode)\<close> returns a copy of the image in the mode asked for.\<close>

definition convert :: "image \<Rightarrow> string \<Rightarrow> image" where
  "convert im m = im\<lparr>mode := m\<rparr>"

text \<open>The keyword arguments collected for \<^verbatim>\<open>im.save\<close>.\<close>

record save_kwargs =
  kw_format :: string
  kw_quality :: int
  kw_method :: int
  kw_optimize :: bool
  kw_icc_profile :: "string option"
  kw_exif :: "string option"

type_synonym bytes = string

text \<open>
  What the scripts delegate is a parameter of the model: decoding a file
  (\<^verbatim>\<open>Image.open\<close>), \<^verbatim>\<open>ImageOps.exif_transpose\<close>, the two resampling calls
  \<^verbatim>\<open>Image.thumbnail\<close> and \<^verbatim>\<open>ImageOps.fit\<close>, and the WebP encoder behind
  \<^verbatim>\<open>im.save\<close>; each may raise.

  The operating system has two ways to refuse.  \<open>os_error\<close> gives, for a path, the
  error that every system call on that path meets: no search permission on a folder
  above it, a name that is too long, an input/output error.  \<open>unlink_denied\<close> says
  for which paths it refuses \<^verbatim>\<open>unlink\<close> alone (a read-only or busy file, a folder
  that may not be written).
\<close>

record env =
  decode :: "bytes \<Rightarrow> exn + image"
  exif_transpose :: "image \<Rightarrow> exn + image"
  thumbnail :: "image \<Rightarrow> int \<times> int \<Rightarrow> exn + image"
  fit :: "image \<Rightarrow> int \<times> int \<Rightarrow> exn + image"
  encode :: "image \<Rightarrow> save_kwargs \<Rightarrow> exn + bytes"
  os_error :: "path \<Rightarrow> exn option"
  unlink_denied :: "path \<Rightarrow> bool"

section \<open>The file system\<close>

text \<open>
  A directory carries its modification time and the size the system reports for it, a
  regular file its modification time and its content.  \<^verbatim>\<open>st_mtime\<close> is a float;
  every finite float is a rational number, which is how it is modelled.  The tree is an
  association list from paths to nodes.  \<open>clock\<close> is the time a write is stamped
  with; \<open>stdout\<close> collects the arguments of the scripts' \<^verbatim>\<open>print\<close> calls.
\<close>

datatype node = Dir rat nat | File rat bytes

record world =
  files :: "(path \<times> node) list"
  clock :: rat
  stdout :: "string list"

record stat_result =
  st_mtime :: rat
  st_size :: nat

text \<open>\<^verbatim>\<open>os.stat\<close>: the node at the path, unless the system refuses or nothing is there.\<close>

definition os_stat :: "env \<Rightarrow> world \<Rightarrow> path \<Rightarrow> exn + node" where
  "os_stat E w p =
     (case os_error E p of
        Some e \<Rightarrow> Inl e
      | None \<Rightarrow>
         (case map_of (files w) p of
            None \<Rightarrow> Inl (FileNotFoundError (path_str p))
          | Some n \<Rightarrow> Inr n))"

text \<open>\<^verbatim>\<open>Path.stat\<close>, as far as the scripts read its result.\<close>

definition stat :: "env \<Rightarrow> world \<Rightarrow> path \<Rightarrow> exn + stat_result" where
  "stat E w p =
     (case os_stat E w p of
        Inl e \<Rightarrow> Inl e
      | Inr (Dir m s) \<Rightarrow> Inr \<lparr>st_mtime = m, st_size = s\<rparr>
      | Inr (File m b) \<Rightarrow> Inr \<lparr>st_mtime = m, st_size = length b\<rparr>)"

text \<open>
  \<^verbatim>\<open>pathlib._ignore_error\<close>: \<^verbatim>\<open>exists\<close>, \<^verbatim>\<open>is_file\<close> and \<^verbatim>\<open>is_dir\<close> answer
  \<^verbatim>\<open>False\<close> when \<^verbatim>\<open>stat\<close> fails with ENOENT or ENOTDIR (also EBADF and ELOOP, for
  which the model has no exception of its own) and raise every other error again.
\<close>

fun ignore_error :: "exn \<Rightarrow> bool" where
  "ignore_error (FileNotFoundError m) = True"
| "ignore_error (NotADirectoryError m) = True"
| "ignore_error e = False"

definition exists :: "env \<Rightarrow> world \<Rightarrow> path \<Rightarrow> exn + bool" where
  "exists E w p =
     (case stat E w p of
        Inl e \<Rightarrow> if ignore_error e then Inr False else Inl e
      | Inr s \<Rightarrow> Inr True)"

definition is_file :: "env \<Rightarrow> world \<Rightarrow> path \<Rightarrow> exn + bool" where
  "is_file E w p =
     (case os_stat E w p of
        Inl e \<Rightarrow> if ignore_error e then Inr False else Inl e
      | Inr (File m b) \<Rightarrow> Inr True
      | Inr (Dir m s) \<Rightarrow> Inr False)"


definition unlink :: "env \<Rightarrow> world \<Rightarrow> path \<Rightarrow> exn + world" where
  "unlink E w p =
     (case os_error E p of
        Some e \<Rightarrow> Inl e
      | None \<Rightarrow>
         (case map_of (files w) p of
            None \<Rightarrow> Inl (FileNotFoundError (path_str p))
          | Some (Dir m s) \<Rightarrow> Inl (IsADirectoryError (path_str p))
          | Some (File m b) \<Rightarrow>
              if unlink_denied E p then Inl (PermissionError (path_str p))
              else Inr (w\<lparr>files := AList.delete p (files w)\<rparr>)))"

text \<open>
  \<^verbatim>\<open>Path.mkdir(parents=True, exist_ok=True)\<close>, by recursion on the reversed path:
  an existing directory is left alone, an existing file raises, and a missing directory
  is created after its parents.  Every refusal is met on the way up, before anything is
  created.  The empty path is the anchor, which exists.
\<close>

fun mkdir_rev :: "env \<Rightarrow> world \<Rightarrow> path \<Rightarrow> exn + world" where
  "mkdir_rev E w [] = Inr w"
| "mkdir_rev E w (c # rp) =
     (case os_error E (rev (c # rp)) of
        Some e \<Rightarrow> Inl e
      | None \<Rightarrow>
         (case map_of (files w) (rev (c # rp)) of
            Some (Dir m s) \<Rightarrow> Inr w
          | Some (File m b) \<Rightarrow> Inl (FileExistsError (path_str (rev (c # rp))))
          | None \<Rightarrow>
              (case map_of (files w) (rev rp) of
                 Some (File m b) \<Rightarrow> Inl (NotADirectoryError (path_str (rev (c # rp))))
               | _ \<Rightarrow>
                  (case mkdir_rev E w rp of
                     Inl e \<Rightarrow> Inl e
                   | Inr w1 \<Rightarrow>
                       Inr (w1\<lparr>files :=
                              AList.update (rev (c # rp)) (Dir (clock w1) 0) (files w1)\<rparr>)))))"

definition mkdir_parents :: "env \<Rightarrow> world \<Rightarrow> path \<Rightarrow> exn + world" where
  "mkdir_parents E w p = mkdir_rev E w (rev p)"

text \<open>\<^verbatim>\<open>Image.open(src)\<close>: the file is opened for reading, then decoded.\<close>

definition Image_open :: "env \<Rightarrow> world \<Rightarrow> path \<Rightarrow> exn + image" where
  "Image_open E w p =
     (case os_stat E w p of
        Inl e \<Rightarrow> Inl e
      | Inr (Dir m s) \<Rightarrow> Inl (IsADirectoryError (path_str p))
      | Inr (File m b) \<Rightarrow> decode E b)"

text \<open>
  \<^verbatim>\<open>im.save(dst, **save_kwargs)\<close>: the library opens \<open>dst\<close> for writing, which
  creates or truncates it, and then encodes.  When the encoder raises, a file that this
  call created is removed again and a file that was there before stays truncated.  The
  result pairs the exception raised, if any, with the world left behind.  Every write
  stamps the file with the clock, which then advances.
\<close>

definition save :: "env \<Rightarrow> image \<Rightarrow> path \<Rightarrow> save_kwargs \<Rightarrow> world \<Rightarrow> exn option \<times> world" where
  "save E im dst kw w =
     (case os_error E dst of
        Some e \<Rightarrow> (Some e, w)
      | None \<Rightarrow>
         (case map_of (files w) dst of
            Some (Dir m s) \<Rightarrow> (Some (IsADirectoryError (path_str dst)), w)
          | old \<Rightarrow>
              (case encode E im kw of
                 Inl e \<Rightarrow>
                   (Some e,
                    if old = None then w
                    else w\<lparr>files := AList.update dst (File (clock w) []) (files w),
                           clock := clock w + 1\<rparr>)
               | Inr data \<Rightarrow>
                   (None,
                    w\<lparr>files := AList.update dst (File (clock w) data) (files w),
                      clock := clock w + 1\<rparr>))))"

definition print :: "string \<Rightarrow> world \<Rightarrow> world" where
  "print line w = w\<lparr>stdout := stdout w @ [line]\<rparr>"


section \<open>Staleness check\<close>

text \<open>
  \<^verbatim>\<open>is_up_to_date\<close>, the same in both scripts (\<^verbatim>\<open>convert_to_webp.py\<close> line
  36, \<^verbatim>\<open>make_thumbnails.py\<close> line 33).  \<^verbatim>\<open>and\<close> evaluates its right operand only
  when \<^verbatim>\<open>dst.exists()\<close> holds; there \<^verbatim>\<open>dst.stat()\<close> is evaluated before
  \<^verbatim>\<open>src.stat()\<close>, and each of the three calls may raise.
\<close>

definition is_up_to_date :: "env \<Rightarrow> world \<Rightarrow> path \<Rightarrow> path \<Rightarrow> exn + bool" where
  "is_up_to_date E w src dst =
     (case exists E w dst of
        Inl e \<Rightarrow> Inl e
      | Inr False \<Rightarrow> Inr False
      | Inr True \<Rightarrow>
         (case stat E w dst of
            Inl e \<Rightarrow> Inl e
          | Inr d \<Rightarrow>
             (case stat E w src of
                Inl e \<Rightarrow> Inl e
              | Inr s \<Rightarrow> Inr (st_mtime d \<ge> st_mtime s))))"

section \<open>The transforms\<close>

text \<open>
  \<^verbatim>\<open>convert_to_webp.py\<close>, lines 53 to 59: the mode given to the encoder.
\<close>

definition webp_mode :: "image \<Rightarrow> image" where
  "webp_mode im =
     (if mode im \<notin> {''RGB'', ''RGBA''} then
        (if ''transparency'' \<in> dom (info im) then convert im ''RGBA''
         else convert im ''RGB'')
      else im)"

text \<open>\<^verbatim>\<open>make_thumbnails.py\<close>, lines 48 and 49.\<close>

definition thumb_mode :: "image \<Rightarrow> image" where
  "thumb_mode im = (if mode im \<notin> {''RGB'', ''RGBA''} then convert im ''RGB'' else im)"

text \<open>
  The dictionary \<^verbatim>\<open>save_kwargs\<close>, built the same way by both transforms: the colour
  profile is carried over, the EXIF block only on request.
\<close>

definition make_save_kwargs :: "image \<Rightarrow> int \<Rightarrow> bool \<Rightarrow> save_kwargs" where
  "make_save_kwargs im quality keep_metadata =
     (let kw = \<lparr>kw_format = ''WEBP'', kw_quality = quality, kw_method = 6,
                 kw_optimize = True, kw_icc_profile = None, kw_exif = None\<rparr>;
          kw = (if ''icc_profile'' \<in> dom (info im)
                then kw\<lparr>kw_icc_profile := info im ''icc_profile''\<rparr> else kw);
          kw = (if keep_metadata \<and> ''exif'' \<in> dom (info im)
                then kw\<lparr>kw_exif := info im ''exif''\<rparr> else kw)
      in kw)"

text \<open>\<^verbatim>\<open>convert_one\<close> (\<^verbatim>\<open>convert_to_webp.py\<close>, lines 40 to 77).\<close>

definition convert_one ::
  "env \<Rightarrow> path \<Rightarrow> path \<Rightarrow> int \<Rightarrow> bool \<Rightarrow> world \<Rightarrow> exn option \<times> world" where
  "convert_one E src dst quality keep_metadata w =
     (case Image_open E w src of
        Inl e \<Rightarrow> (Some e, w)
      | Inr im0 \<Rightarrow>
         (case exif_transpose E im0 of
            Inl e \<Rightarrow> (Some e, w)
          | Inr im1 \<Rightarrow>
             (let im = webp_mode im1;
                  kw = make_save_kwargs im quality keep_metadata
              in case mkdir_parents E w (parent dst) of
                   Inl e \<Rightarrow> (Some e, w)
                 | Inr w1 \<Rightarrow> save E im dst kw w1)))"

text \<open>\<^verbatim>\<open>make_thumbnail\<close> (\<^verbatim>\<open>make_thumbnails.py\<close>, lines 37 to 73).\<close>

definition make_thumbnail ::
  "env \<Rightarrow> path \<Rightarrow> path \<Rightarrow> int \<times> int \<Rightarrow> int \<Rightarrow> string \<Rightarrow> bool \<Rightarrow> world
     \<Rightarrow> exn option \<times> world" where
  "make_thumbnail E src dst max_size quality method keep_metadata w =
     (case Image_open E w src of
        Inl e \<Rightarrow> (Some e, w)
      | Inr im0 \<Rightarrow>
         (case exif_transpose E im0 of
            Inl e \<Rightarrow> (Some e, w)
          | Inr im1 \<Rightarrow>
             (case (if method = ''fit'' then thumbnail E (thumb_mode im1) max_size
                    else if method = ''cover'' then fit E (thumb_mode im1) max_size
                    else Inl (ValueError (''Unknown method: '' @ method))) of
                Inl e \<Rightarrow> (Some e, w)
              | Inr im \<Rightarrow>
                 (case mkdir_parents E w (parent dst) of
                    Inl e \<Rightarrow> (Some e, w)
                  | Inr w1 \<Rightarrow>
                      save E im dst (make_save_kwargs im quality keep_metadata) w1))))"

section \<open>The command line\<close>

text \<open>
  Both scripts hand \<^verbatim>\<open>sys.argv\<close> to \<^verbatim>\<open>argparse\<close>, which ends the process
  itself in two cases: with status 0 after printing the help text, and with status 2
  after a usage error.  The command line is modelled by what \<^verbatim>\<open>argparse\<close> finds in
  it: whether \<^verbatim>\<open>-h\<close> or \<^verbatim>\<open>--help\<close> is met (before any error), the structural
  errors (an unknown option, a surplus argument, an option without its values), the
  positional root if there is one, and for each option the text given for it.  Of the
  text of an option with \<^verbatim>\<open>type=int\<close> the model keeps only what \<^verbatim>\<open>int\<close> makes of
  it.  The root is taken as already resolved.
\<close>

datatype int_text = Malformed string | Number int

datatype 'a parsed = Help | Usage_error string | Parsed 'a

text \<open>
  The action \<^verbatim>\<open>append\<close>: the namespace starts with the default, and every
  occurrence of the option replaces the list by a copy with the new value at its end.
\<close>

definition append_action :: "'a list \<Rightarrow> 'a \<Rightarrow> 'a list" where
  "append_action items v = items @ [v]"

section \<open>convert-to-webp: the run\<close>

text \<open>Lines 81 to 92.\<close>

record webp_cmdline =
  c_help :: bool
  c_malformed :: "string list"
  c_root :: "path option"
  c_quality :: "int_text option"
  c_keep_metadata :: bool
  c_delete_originals :: bool
  c_overwrite :: bool
  c_skip_folder :: "string list"

record webp_args =
  a_root :: path
  a_quality :: int
  a_keep_metadata :: bool
  a_delete_originals :: bool
  a_overwrite :: bool
  a_skip_folder :: "string list"

definition parse_args :: "webp_cmdline \<Rightarrow> webp_args parsed" where
  "parse_args c =
     (if c_help c then Help
      else if c_malformed c \<noteq> [] then Usage_error (hd (c_malformed c))
      else case c_root c of
        None \<Rightarrow> Usage_error ''the following arguments are required: root''
      | Some r \<Rightarrow>
         (case c_quality c of
            Some (Malformed t) \<Rightarrow>
              Usage_error (''argument --quality: invalid int value: '' @ t)
          | q \<Rightarrow>
              Parsed
                \<lparr>a_root = r,
                 a_quality = (case q of Some (Number n) \<Rightarrow> n | _ \<Rightarrow> 80),
                 a_keep_metadata = c_keep_metadata c,
                 a_delete_originals = c_delete_originals c,
                 a_overwrite = c_overwrite c,
                 a_skip_folder = foldl append_action [''thumbnails''] (c_skip_folder c)\<rparr>))"

text \<open>The local variables of \<^verbatim>\<open>main\<close>, with the world they run in.\<close>

record webp_state =
  world :: world
  converted :: nat
  skipped :: nat
  errors :: nat
  deleted :: nat

text \<open>Line 103.\<close>

definition skip_folders :: "webp_args \<Rightarrow> string list" where
  "skip_folders args = remdups (map lower (a_skip_folder args))"

text \<open>
  Lines 106 to 117: whether the loop goes on to the \<^verbatim>\<open>try\<close> block for \<open>src\<close>
  (no \<^verbatim>\<open>continue\<close> is taken).  \<^verbatim>\<open>src.is_file()\<close> comes first and may raise; it
  stands outside the \<^verbatim>\<open>try\<close>.
\<close>

definition webp_candidate :: "env \<Rightarrow> webp_args \<Rightarrow> world \<Rightarrow> path \<Rightarrow> exn + bool" where
  "webp_candidate E args w src =
     (case is_file E w src of
        Inl e \<Rightarrow> Inl e
      | Inr False \<Rightarrow> Inr False
      | Inr True \<Rightarrow>
         (if list_ex (\<lambda>name. is_in_folder_named src name) (skip_folders args) then Inr False
          else (let ext = lower (suffix_of src)
                in if ext \<in> WEBP_EXTS then Inr False
                   else if ext \<notin> CONVERT_EXTS then Inr False
                   else Inr True)))"

text \<open>
  Lines 126 to 133: the conversion, its count, and the deletion of the original.  The
  result is the exception that left the block, if any, and the state at that point.
\<close>

definition webp_rebuild ::
  "env \<Rightarrow> webp_args \<Rightarrow> path \<Rightarrow> path \<Rightarrow> webp_state \<Rightarrow> exn option \<times> webp_state" where
  "webp_rebuild E args src dst st =
     (case convert_one E src dst (a_quality args) (a_keep_metadata args) (world st) of
        (Some e, w1) \<Rightarrow> (Some e, st\<lparr>world := w1\<rparr>)
      | (None, w1) \<Rightarrow>
         (let st1 = st\<lparr>world := w1, converted := converted st + 1\<rparr>
          in if a_delete_originals args then
               (case exists E w1 dst of
                  Inl e \<Rightarrow> (Some e, st1)
                | Inr False \<Rightarrow> (None, st1)
                | Inr True \<Rightarrow>
                   (case stat E w1 dst of
                      Inl e \<Rightarrow> (Some e, st1)
                    | Inr d \<Rightarrow>
                       (if st_size d > 0 then
                          (case unlink E w1 src of
                             Inl e \<Rightarrow> (Some e, st1)
                           | Inr w2 \<Rightarrow>
                               (None, st1\<lparr>world := w2, deleted := deleted st1 + 1\<rparr>))
                        else (None, st1))))
             else (None, st1)))"

text \<open>Lines 122 to 133, the body of the \<^verbatim>\<open>try\<close>.\<close>

definition webp_try ::
  "env \<Rightarrow> webp_args \<Rightarrow> path \<Rightarrow> path \<Rightarrow> webp_state \<Rightarrow> exn option \<times> webp_state" where
  "webp_try E args src dst st =
     (if \<not> a_overwrite args then
        (case is_up_to_date E (world st) src dst of
           Inl e \<Rightarrow> (Some e, st)
         | Inr True \<Rightarrow> (None, st\<lparr>skipped := skipped st + 1\<rparr>)
         | Inr False \<Rightarrow> webp_rebuild E args src dst st)
      else webp_rebuild E args src dst st)"

text \<open>Lines 135 to 137, the handler.\<close>

definition webp_except :: "path \<Rightarrow> exn \<Rightarrow> webp_state \<Rightarrow> webp_state" where
  "webp_except src e st =
     st\<lparr>errors := errors st + 1,
        world := print (''[ERROR] '' @ path_str src @ '': '' @ exn_str e) (world st)\<rparr>"

text \<open>
  One iteration of the loop (lines 105 to 137).  The first component of the result is
  the exception that no handler caught and that ends the loop, if there is one.
\<close>

definition webp_step ::
  "env \<Rightarrow> webp_args \<Rightarrow> webp_state \<Rightarrow> path \<Rightarrow> exn option \<times> webp_state" where
  "webp_step E args st src =
     (case webp_candidate E args (world st) src of
        Inl e \<Rightarrow> (Some e, st)
      | Inr False \<Rightarrow> (None, st)
      | Inr True \<Rightarrow>
         (let dst = with_suffix src ''.webp''
          in case webp_try E args src dst st of
               (None, st1) \<Rightarrow> (None, st1)
             | (Some e, st1) \<Rightarrow> (None, webp_except src e st1)))"







section \<open>make-thumbnails: the run\<close>


record thumb_args =
  t_root :: path
  t_max :: "int \<times> int"
  t_quality :: int
  t_method :: string
  t_keep_metadata :: bool
  t_overwrite :: bool


record thumb_state =
  world_t :: world
  created :: nat
  skipped_t :: nat
  errors_t :: nat

text \<open>\<^verbatim>\<open>is_image\<close> (line 29); \<^verbatim>\<open>and\<close> looks at the suffix only for a file.\<close>

definition is_image :: "env \<Rightarrow> world \<Rightarrow> path \<Rightarrow> exn + bool" where
  "is_image E w p =
     (case is_file E w p of
        Inl e \<Rightarrow> Inl e
      | Inr False \<Rightarrow> Inr False
      | Inr True \<Rightarrow> Inr (lower (suffix_of p) \<in> IMAGE_EXTS))"

text \<open>
  Lines 99 to 104: no \<^verbatim>\<open>continue\<close> is taken for \<open>src\<close>.  \<^verbatim>\<open>is_image(src)\<close> stands
  outside the \<^verbatim>\<open>try\<close>.
\<close>

definition thumb_candidate :: "env \<Rightarrow> world \<Rightarrow> path \<Rightarrow> exn + bool" where
  "thumb_candidate E w src =
     (case is_image E w src of
        Inl e \<Rightarrow> Inl e
      | Inr False \<Rightarrow> Inr False
      | Inr True \<Rightarrow> (if THUMB_DIR_NAME \<in> set src then Inr False else Inr True))"

text \<open>Lines 106 and 107.\<close>

definition thumb_path :: "path \<Rightarrow> path" where
  "thumb_path src =
     (let thumb_dir = parent src @ [THUMB_DIR_NAME]
      in with_suffix (thumb_dir @ [name src]) ''.webp'')"

text \<open>Lines 114 to 122: the thumbnail is made and counted.\<close>

definition thumb_rebuild ::
  "env \<Rightarrow> thumb_args \<Rightarrow> path \<Rightarrow> path \<Rightarrow> thumb_state \<Rightarrow> exn option \<times> thumb_state" where
  "thumb_rebuild E args src dst st =
     (case make_thumbnail E src dst (t_max args) (t_quality args) (t_method args)
             (t_keep_metadata args) (world_t st) of
        (Some e, w1) \<Rightarrow> (Some e, st\<lparr>world_t := w1\<rparr>)
      | (None, w1) \<Rightarrow> (None, st\<lparr>world_t := w1, created := created st + 1\<rparr>))"

text \<open>Lines 110 to 122, the body of the \<^verbatim>\<open>try\<close>.\<close>

definition thumb_try ::
  "env \<Rightarrow> thumb_args \<Rightarrow> path \<Rightarrow> path \<Rightarrow> thumb_state \<Rightarrow> exn option \<times> thumb_state" where
  "thumb_try E args src dst st =
     (if \<not> t_overwrite args then
        (case is_up_to_date E (world_t st) src dst of
           Inl e \<Rightarrow> (Some e, st)
         | Inr True \<Rightarrow> (None, st\<lparr>skipped_t := skipped_t st + 1\<rparr>)
         | Inr False \<Rightarrow> thumb_rebuild E args src dst st)
      else thumb_rebuild E args src dst st)"

text \<open>Lines 124 to 126, the handler.\<close>

definition thumb_except :: "path \<Rightarrow> exn \<Rightarrow> thumb_state \<Rightarrow> thumb_state" where
  "thumb_except src e st =
     st\<lparr>errors_t := errors_t st + 1,
        world_t := print (''[ERROR] '' @ path_str src @ '': '' @ exn_str e) (world_t st)\<rparr>"

definition thumb_step ::
  "env \<Rightarrow> thumb_args \<Rightarrow> thumb_state \<Rightarrow> path \<Rightarrow> exn option \<times> thumb_state" where
  "thumb_step E args st src =
     (case thumb_candidate E (world_t st) src of
        Inl e \<Rightarrow> (Some e, st)
      | Inr False \<Rightarrow> (None, st)
      | Inr True \<Rightarrow>
         (case thumb_try E args src (thumb_path src) st of
            (None, st1) \<Rightarrow> (None, st1)
          | (Some e, st1) \<Rightarrow> (None, thumb_except src e st1)))"




section \<open>The specification's notion of transparency\<close>

text \<open>
  The specification speaks of ``images with an alpha channel or palette transparency''.
  In the library an alpha channel shows in the mode, and palette transparency in the
  \<^verbatim>\<open>transparency\<close> entry of \<^verbatim>\<open>im.info\<close>.
\<close>

definition spec_has_transparency :: "image \<Rightarrow> bool" where
  "spec_has_transparency im =
     (mode im \<in> {''RGBA'', ''LA'', ''PA'', ''RGBa'', ''La''}
      \<or> ''transparency'' \<in> dom (info im))"

section \<open>Notions for stating the properties\<close>

text \<open>The tree holds a regular file at the path, whatever the system says about it.\<close>

definition regular_file :: "world \<Rightarrow> path \<Rightarrow> bool" where
  "regular_file w p = (case map_of (files w) p of Some (File m b) \<Rightarrow> True | _ \<Rightarrow> False)"

text \<open>The part of the two traversal filters that does not look at the file system.\<close>

definition webp_name_ok :: "webp_args \<Rightarrow> path \<Rightarrow> bool" where
  "webp_name_ok args p =
     (\<not> list_ex (\<lambda>name. is_in_folder_named p name) (skip_folders args)
      \<and> lower (suffix_of p) \<notin> WEBP_EXTS \<and> lower (suffix_of p) \<in> CONVERT_EXTS)"

definition thumb_name_ok :: "path \<Rightarrow> bool" where
  "thumb_name_ok p = (lower (suffix_of p) \<in> IMAGE_EXTS \<and> THUMB_DIR_NAME \<notin> set p)"

fun mtime_of :: "node \<Rightarrow> rat" where
  "mtime_of (Dir m s) = m"
| "mtime_of (File m b) = m"

text \<open>
  How a run may change the world, with \<open>el\<close> the paths the filter accepts by name:
  the clock does not go back; a regular file at an accepted path was there before, with
  the same time and content; a node at a path that is not accepted stays, either as
  it was or stamped no earlier than the clock at the start; and a node appears only at
  a path the system does not refuse.
\<close>

definition evolves :: "env \<Rightarrow> (path \<Rightarrow> bool) \<Rightarrow> world \<Rightarrow> world \<Rightarrow> bool" where
  "evolves E el w w' =
     (clock w \<le> clock w'
      \<and> (\<forall>p m b. el p \<and> map_of (files w') p = Some (File m b)
            \<longrightarrow> map_of (files w) p = Some (File m b))
      \<and> (\<forall>d n. \<not> el d \<and> map_of (files w) d = Some n
            \<longrightarrow> (\<exists>n'. map_of (files w') d = Some n' \<and> (n' = n \<or> clock w \<le> mtime_of n')))
      \<and> (\<forall>p. map_of (files w) p = None \<and> map_of (files w') p \<noteq> None
            \<longrightarrow> os_error E p = None))"

section \<open>Example inputs\<close>

text \<open>
  A library whose decoder rejects the content \<open>junk\<close> and reads every other file as
  a palette image with transparency, and a system that refuses nothing but the removal
  of \<^verbatim>\<open>r/locked.jpg\<close>.
\<close>

definition ex_env :: env where
  "ex_env =
     \<lparr>decode = (\<lambda>b. if b = ''junk''
                     then Inl (UnidentifiedImageError ''cannot identify image file'')
                     else Inr \<lparr>mode = ''P'', info = [''transparency'' \<mapsto> ''0'']\<rparr>),
      exif_transpose = Inr,
      thumbnail = (\<lambda>im sz. Inr im),
      fit = (\<lambda>im sz. Inr im),
      encode = (\<lambda>im kw. Inr ''RIFF''),
      os_error = (\<lambda>p. None),
      unlink_denied = (\<lambda>p. p = [''r'', ''locked.jpg''])\<rparr>"

definition ex_world :: world where
  "ex_world =
     \<lparr>files =
        [([''r''], Dir 1 0),
         ([''r'', ''a.png''], File 5 ''png''),
         ([''r'', ''a.webp''], File 7 ''RIFF''),
         ([''r'', ''b.jpg''], File 6 ''junk''),
         ([''r'', ''d.png''], File 8 ''png''),
         ([''r'', ''locked.jpg''], File 6 ''jpg''),
         ([''r'', ''Thumbnails''], Dir 1 0),
         ([''r'', ''Thumbnails'', ''c.jpg''], File 6 ''jpg'')],
      clock = 10, stdout = []\<rparr>"

definition ex_cmdline :: webp_cmdline where
  "ex_cmdline =
     \<lparr>c_help = False, c_malformed = [], c_root = Some [''r''], c_quality = None,
      c_keep_metadata = False, c_delete_originals = True, c_overwrite = False,
      c_skip_folder = [''Drafts'']\<rparr>"

definition ex_args :: webp_args where
  "ex_args =
     \<lparr>a_root = [''r''], a_quality = 80, a_keep_metadata = False,
      a_delete_originals = True, a_overwrite = False,
      a_skip_folder = [''thumbnails'', ''Drafts'']\<rparr>"


definition ex_thumb_args :: thumb_args where
  "ex_thumb_args =
     \<lparr>t_root = [''r''], t_max = (600, 600), t_quality = 80, t_method = ''fit'',
      t_keep_metadata = False, t_overwrite = False\<rparr>"

definition ex_state :: webp_state where
  "ex_state = \<lparr>world = ex_world, converted = 0, skipped = 0, errors = 0, deleted = 0\<rparr>"

definition ex_thumb_state :: thumb_state where
  "ex_thumb_state = \<lparr>world_t = ex_world, created = 0, skipped_t = 0, errors_t = 0\<rparr>"





text \<open>
  Further inputs: convert-to-webp without \<^verbatim>\<open>--delete-originals\<close>, a tree whose only
  image has a modification time later than the clock, and a tree whose images are all
  older than the clock.
\<close>

definition ex_keep_args :: webp_args where
  "ex_keep_args = ex_args\<lparr>a_delete_originals := False\<rparr>"

definition ex_future_world :: world where
  "ex_future_world =
     \<lparr>files = [([''r''], Dir 1 0), ([''r'', ''f.png''], File 100 ''png'')],
      clock = 10, stdout = []\<rparr>"

definition ex_tidy_world :: world where
  "ex_tidy_world =
     \<lparr>files =
        [([''r''], Dir 1 0),
         ([''r'', ''a.png''], File 5 ''png''),
         ([''r'', ''a.webp''], File 3 ''RIFF''),
         ([''r'', ''d.png''], File 8 ''png'')],
      clock = 10, stdout = []\<rparr>"

section \<open>What the file tests answer\<close>

lemma is_file_True_iff:
  "is_file E w p = Inr True \<longleftrightarrow> os_error E p = None \<and> regular_file w p"
  by (auto simp: is_file_def os_stat_def regular_file_def
      split: option.splits node.splits sum.splits if_splits)


lemma is_file_free: "os_error E p = None \<Longrightarrow> is_file E w p = Inr (regular_file w p)"
  by (auto simp: is_file_def os_stat_def regular_file_def split: option.splits node.splits)

lemma exists_True_iff:
  "exists E w p = Inr True \<longleftrightarrow> os_error E p = None \<and> map_of (files w) p \<noteq> None"
  by (auto simp: exists_def stat_def os_stat_def
      split: option.splits node.splits sum.splits if_splits)

lemma stat_Inr_iff:
  "stat E w p = Inr s \<longleftrightarrow>
     os_error E p = None
     \<and> (\<exists>n. map_of (files w) p = Some n
           \<and> s = (case n of Dir m z \<Rightarrow> \<lparr>st_mtime = m, st_size = z\<rparr>
                    | File m b \<Rightarrow> \<lparr>st_mtime = m, st_size = length b\<rparr>))"
  by (auto simp: stat_def os_stat_def split: option.splits node.splits sum.splits)

lemma webp_candidate_iff:
  "webp_candidate E args w p = Inr True
     \<longleftrightarrow> os_error E p = None \<and> regular_file w p \<and> webp_name_ok args p"
proof -
  have "webp_candidate E args w p = Inr True
          \<longleftrightarrow> is_file E w p = Inr True \<and> webp_name_ok args p"
    by (auto simp: webp_candidate_def webp_name_ok_def Let_def split: sum.splits bool.splits)
  thus ?thesis
    by (simp add: is_file_True_iff)
qed


lemma thumb_candidate_iff:
  "thumb_candidate E w p = Inr True
     \<longleftrightarrow> os_error E p = None \<and> regular_file w p \<and> thumb_name_ok p"
proof -
  have "thumb_candidate E w p = Inr True
          \<longleftrightarrow> is_file E w p = Inr True \<and> thumb_name_ok p"
    by (auto simp: thumb_candidate_def is_image_def thumb_name_ok_def
        split: sum.splits bool.splits)
  thus ?thesis
    by (simp add: is_file_True_iff)
qed


text \<open>An iteration for a path that is no work item: it ends the loop or does nothing.\<close>

lemma webp_step_no_candidate:
  "webp_candidate E args (world st) src \<noteq> Inr True \<Longrightarrow>
     webp_step E args st src
       = (case is_file E (world st) src of Inl e \<Rightarrow> (Some e, st) | Inr b \<Rightarrow> (None, st))"
  by (auto simp: webp_step_def webp_candidate_def Let_def split: sum.splits bool.splits)

lemma thumb_step_no_candidate:
  "thumb_candidate E (world_t st) src \<noteq> Inr True \<Longrightarrow>
     thumb_step E args st src
       = (case is_file E (world_t st) src of Inl e \<Rightarrow> (Some e, st) | Inr b \<Rightarrow> (None, st))"
  by (auto simp: thumb_step_def thumb_candidate_def is_image_def split: sum.splits bool.splits)

section \<open>The staleness check\<close>



section \<open>Path components and letter case\<close>

lemma lower_char_idem: "lower_char (lower_char c) = lower_char c"
  by (simp add: lower_char_def Let_def)

lemma lower_idem: "lower (lower s) = lower s"
  by (simp add: lower_def lower_char_idem)

lemma skip_folder_match:
  assumes "n \<in> set (a_skip_folder args)" "part \<in> set src" "lower part = lower n"
  shows "list_ex (\<lambda>name. is_in_folder_named src name) (skip_folders args)"
proof -
  have "lower n \<in> set (skip_folders args)"
    using assms(1) by (simp add: skip_folders_def)
  moreover have "is_in_folder_named src (lower n)"
    using assms(2,3) by (auto simp: is_in_folder_named_def list_ex_iff lower_idem)
  ultimately show ?thesis
    unfolding list_ex_iff by blast
qed

lemma skip_folder_no_candidate:
  assumes "n \<in> set (a_skip_folder args)" "part \<in> set src" "lower part = lower n"
  shows "webp_candidate E args w src \<noteq> Inr True"
  using skip_folder_match [OF assms] by (simp add: webp_candidate_iff webp_name_ok_def)

lemma ex_webp_suffix: "lower (suffix_of [''r'', ''a.webp'']) = ''.webp''"
  by (simp add: suffix_of_def name_def name_suffix_def lower_def lower_char_def)

section \<open>Skipped folders\<close>

text \<open>
  Claim C4, as amended.  In convert-to-webp a file with a path component equal, up to
  letter case, to a configured skip-folder name is no work item, and its iteration
  leaves the state as it was: it goes on to the next path, unless the file-type test
  itself raises.  In make-thumbnails the same holds for a file with a component that is
  exactly \<^verbatim>\<open>thumbnails\<close>.
\<close>

theorem skip_folder_exclusion:
  "((\<exists>n \<in> set (a_skip_folder args). \<exists>part \<in> set src. lower part = lower n) \<longrightarrow>
      webp_candidate E args w src \<noteq> Inr True
      \<and> snd (webp_step E args st src) = st
      \<and> webp_step E args st src
          = (case is_file E (world st) src of Inl e \<Rightarrow> (Some e, st) | Inr b \<Rightarrow> (None, st)))
   \<and> (THUMB_DIR_NAME \<in> set src \<longrightarrow>
      thumb_candidate E w src \<noteq> Inr True
      \<and> snd (thumb_step E targs ts src) = ts
      \<and> thumb_step E targs ts src
          = (case is_file E (world_t ts) src of Inl e \<Rightarrow> (Some e, ts) | Inr b \<Rightarrow> (None, ts)))"
proof -
  have a: "webp_candidate E args w' src \<noteq> Inr True"
    if "\<exists>n \<in> set (a_skip_folder args). \<exists>part \<in> set src. lower part = lower n" for w'
    using that skip_folder_no_candidate [of _ args _ src E w'] by blast
  have b: "thumb_candidate E w' src \<noteq> Inr True" if "THUMB_DIR_NAME \<in> set src" for w'
    using that by (simp add: thumb_candidate_iff thumb_name_ok_def)
  show ?thesis
    using a [of w] a [of "world st"] b [of w] b [of "world_t ts"]
    by (auto simp: webp_step_no_candidate thumb_step_no_candidate split: sum.splits)
qed

theorem skip_folder_exclusion_witness:
  "webp_candidate ex_env ex_args ex_world [''r'', ''Thumbnails'', ''c.jpg''] \<noteq> Inr True
   \<and> webp_step ex_env ex_args ex_state [''r'', ''Thumbnails'', ''c.jpg''] = (None, ex_state)
   \<and> thumb_candidate ex_env ex_world [''r'', ''thumbnails'', ''c.jpg''] \<noteq> Inr True
   \<and> thumb_step ex_env ex_thumb_args ex_thumb_state [''r'', ''thumbnails'', ''c.jpg'']
       = (None, ex_thumb_state)"
proof -
  have "lower ''Thumbnails'' = lower ''thumbnails''"
    by code_simp
  moreover have "''thumbnails'' \<in> set (a_skip_folder ex_args)"
    by (simp add: ex_args_def)
  ultimately have h: "\<exists>n \<in> set (a_skip_folder ex_args).
      \<exists>part \<in> set [''r'', ''Thumbnails'', ''c.jpg'']. lower part = lower n"
    by auto
  have t: "THUMB_DIR_NAME \<in> set [''r'', ''thumbnails'', ''c.jpg'']"
    by (simp add: THUMB_DIR_NAME_def)
  have f: "is_file ex_env (world ex_state) [''r'', ''Thumbnails'', ''c.jpg''] = Inr True"
    "is_file ex_env (world_t ex_thumb_state) [''r'', ''thumbnails'', ''c.jpg''] = Inr False"
    by code_simp+
  show ?thesis
    using h t f
      skip_folder_exclusion [of ex_args "[''r'', ''Thumbnails'', ''c.jpg'']" ex_env ex_world
        ex_state]
      skip_folder_exclusion [of ex_args "[''r'', ''thumbnails'', ''c.jpg'']" ex_env ex_world
        ex_state ex_thumb_args ex_thumb_state]
    by simp
qed

text \<open>
  The claim as written asks make-thumbnails for a match up to letter case.  The file
  \<^verbatim>\<open>r/Thumbnails/c.jpg\<close> has a component matching \<^verbatim>\<open>thumbnails\<close> up to case, is
  a work item all the same, and its thumbnail is created.
\<close>

theorem skip_folder_counterexample:
  "is_in_folder_named [''r'', ''Thumbnails'', ''c.jpg''] THUMB_DIR_NAME
   \<and> thumb_candidate ex_env ex_world [''r'', ''Thumbnails'', ''c.jpg''] = Inr True
   \<and> exists ex_env ex_world (thumb_path [''r'', ''Thumbnails'', ''c.jpg'']) = Inr False
   \<and> exists ex_env
        (world_t (snd (thumb_step ex_env ex_thumb_args ex_thumb_state
                         [''r'', ''Thumbnails'', ''c.jpg''])))
        (thumb_path [''r'', ''Thumbnails'', ''c.jpg'']) = Inr True"
  by code_simp

section \<open>Files already in the target format\<close>

text \<open>
  Claim C5, as amended.  convert-to-webp never takes a file whose extension is
  \<^verbatim>\<open>.webp\<close>, in any letter case, as a work item, and the iteration leaves the state
  as it was.  make-thumbnails lists \<^verbatim>\<open>.webp\<close> among its image extensions: such a
  path is a work item exactly when it is a regular file with no component named
  \<^verbatim>\<open>thumbnails\<close>.
\<close>

theorem target_format_filter:
  "lower (suffix_of src) \<in> WEBP_EXTS \<longrightarrow>
     webp_candidate E args w src \<noteq> Inr True
     \<and> snd (webp_step E args st src) = st
     \<and> webp_step E args st src
         = (case is_file E (world st) src of Inl e \<Rightarrow> (Some e, st) | Inr b \<Rightarrow> (None, st))
     \<and> (thumb_candidate E w src = Inr True
          \<longleftrightarrow> is_file E w src = Inr True \<and> THUMB_DIR_NAME \<notin> set src)"
proof -
  have a: "webp_candidate E args w' src \<noteq> Inr True"
    if "lower (suffix_of src) \<in> WEBP_EXTS" for w'
    using that by (simp add: webp_candidate_iff webp_name_ok_def)
  have b: "thumb_candidate E w src = Inr True
             \<longleftrightarrow> is_file E w src = Inr True \<and> THUMB_DIR_NAME \<notin> set src"
    if "lower (suffix_of src) \<in> WEBP_EXTS"
    using that
    by (auto simp: thumb_candidate_iff thumb_name_ok_def is_file_True_iff WEBP_EXTS_def
        IMAGE_EXTS_def)
  show ?thesis
    using a [of w] a [of "world st"] b
    by (auto simp: webp_step_no_candidate split: sum.splits)
qed

theorem target_format_filter_witness:
  "lower (suffix_of [''r'', ''a.webp'']) \<in> WEBP_EXTS
   \<and> webp_candidate ex_env ex_args ex_world [''r'', ''a.webp''] \<noteq> Inr True
   \<and> webp_step ex_env ex_args ex_state [''r'', ''a.webp''] = (None, ex_state)
   \<and> thumb_candidate ex_env ex_world [''r'', ''a.webp''] = Inr True"
proof -
  have h: "lower (suffix_of [''r'', ''a.webp'']) \<in> WEBP_EXTS"
    by (simp add: ex_webp_suffix WEBP_EXTS_def)
  have f: "is_file ex_env ex_world [''r'', ''a.webp''] = Inr True"
    "is_file ex_env (world ex_state) [''r'', ''a.webp''] = Inr True"
    "THUMB_DIR_NAME \<notin> set [''r'', ''a.webp'']"
    by code_simp+
  show ?thesis
    using h f target_format_filter [of "[''r'', ''a.webp'']" ex_env ex_args ex_world ex_state]
    by simp
qed

text \<open>
  The claim as written also covers make-thumbnails, where \<^verbatim>\<open>r/a.webp\<close> is a work
  item.
\<close>

theorem target_format_counterexample:
  "lower (suffix_of [''r'', ''a.webp'']) \<in> WEBP_EXTS
   \<and> thumb_candidate ex_env ex_world [''r'', ''a.webp''] = Inr True"
  by code_simp

section \<open>Colour mode\<close>

text \<open>
  Claim C6, as amended.  Both transforms keep an image that is already in mode
  \<^verbatim>\<open>RGB\<close> or \<^verbatim>\<open>RGBA\<close>.  Of the other images, \<^verbatim>\<open>convert_one\<close> turns one
  with a \<^verbatim>\<open>transparency\<close> entry into \<^verbatim>\<open>RGBA\<close> and one with neither an alpha
  channel nor that entry into \<^verbatim>\<open>RGB\<close>; \<^verbatim>\<open>make_thumbnail\<close> turns every one of
  them into \<^verbatim>\<open>RGB\<close> and does not look at transparency.
\<close>

theorem color_mode:
  "(mode im \<in> {''RGB'', ''RGBA''} \<longrightarrow> webp_mode im = im \<and> thumb_mode im = im)
   \<and> (mode im \<notin> {''RGB'', ''RGBA''} \<and> ''transparency'' \<in> dom (info im) \<longrightarrow>
        mode (webp_mode im) = ''RGBA'')
   \<and> (mode im \<notin> {''RGB'', ''RGBA''} \<and> \<not> spec_has_transparency im \<longrightarrow>
        mode (webp_mode im) = ''RGB'')
   \<and> (mode im \<notin> {''RGB'', ''RGBA''} \<longrightarrow> mode (thumb_mode im) = ''RGB'')"
  by (auto simp: webp_mode_def thumb_mode_def convert_def spec_has_transparency_def)

theorem color_mode_witness:
  "mode (webp_mode \<lparr>mode = ''P'', info = [''transparency'' \<mapsto> ''0'']\<rparr>) = ''RGBA''
   \<and> mode (thumb_mode \<lparr>mode = ''P'', info = [''transparency'' \<mapsto> ''0'']\<rparr>) = ''RGB''
   \<and> mode (webp_mode \<lparr>mode = ''CMYK'', info = Map.empty\<rparr>) = ''RGB''
   \<and> webp_mode \<lparr>mode = ''RGBA'', info = Map.empty\<rparr> = \<lparr>mode = ''RGBA'', info = Map.empty\<rparr>
   \<and> thumb_mode \<lparr>mode = ''RGB'', info = Map.empty\<rparr> = \<lparr>mode = ''RGB'', info = Map.empty\<rparr>"
  using color_mode [of "\<lparr>mode = ''P'', info = [''transparency'' \<mapsto> ''0'']\<rparr>"]
    color_mode [of "\<lparr>mode = ''CMYK'', info = Map.empty\<rparr>"]
    color_mode [of "\<lparr>mode = ''RGBA'', info = Map.empty\<rparr>"]
    color_mode [of "\<lparr>mode = ''RGB'', info = Map.empty\<rparr>"]
  by (simp add: spec_has_transparency_def)

text \<open>
  The claim as written promises \<^verbatim>\<open>RGBA\<close> for every image with palette
  transparency, in both transforms; \<^verbatim>\<open>make_thumbnail\<close> makes such an image
  \<^verbatim>\<open>RGB\<close>.
\<close>

theorem color_mode_counterexample:
  "spec_has_transparency \<lparr>mode = ''P'', info = [''transparency'' \<mapsto> ''0'']\<rparr>
   \<and> mode (thumb_mode \<lparr>mode = ''P'', info = [''transparency'' \<mapsto> ''0'']\<rparr>) = ''RGB''"
  by (simp add: spec_has_transparency_def thumb_mode_def convert_def)

section \<open>The default skip folder\<close>

lemma foldl_append_action: "foldl append_action d vs = d @ vs"
  by (induction vs arbitrary: d) (simp_all add: append_action_def)

lemma lower_thumbnails: "lower ''thumbnails'' = ''thumbnails''"
  by (simp add: lower_def lower_char_def)

text \<open>
  Claim C9.  Whatever \<^verbatim>\<open>--skip-folder\<close> options are given to convert-to-webp, the
  list \<^verbatim>\<open>argparse\<close> produces is \<^verbatim>\<open>thumbnails\<close> followed by the names given, in
  the order given: they are appended to the default and do not replace it.  So the set
  the loop consults holds \<^verbatim>\<open>thumbnails\<close> and every given name, in lower case, and
  nothing else; and a file with a component that is \<^verbatim>\<open>thumbnails\<close>, or a given
  name, up to letter case is never a work item and its iteration leaves the state as it
  was.
\<close>

theorem default_skip_folder:
  "parse_args c = Parsed args \<longrightarrow>
     a_skip_folder args = ''thumbnails'' # c_skip_folder c
     \<and> ''thumbnails'' \<in> set (skip_folders args)
     \<and> set (skip_folders args) = insert ''thumbnails'' (lower ` set (c_skip_folder c))
     \<and> ((\<exists>part \<in> set src. lower part = ''thumbnails''
          \<or> (\<exists>n \<in> set (c_skip_folder c). lower part = lower n)) \<longrightarrow>
          webp_candidate E args w src \<noteq> Inr True
          \<and> snd (webp_step E args st src) = st
          \<and> webp_step E args st src
              = (case is_file E (world st) src of
                   Inl e \<Rightarrow> (Some e, st) | Inr b \<Rightarrow> (None, st)))"
proof
  assume p: "parse_args c = Parsed args"
  have a: "a_skip_folder args = ''thumbnails'' # c_skip_folder c"
    using p
    by (auto simp: parse_args_def foldl_append_action Let_def
        split: if_splits option.splits int_text.splits)
  have b: "set (skip_folders args) = insert ''thumbnails'' (lower ` set (c_skip_folder c))"
    using a by (auto simp: skip_folders_def lower_thumbnails)
  have n: "webp_candidate E args w' src \<noteq> Inr True"
    if "\<exists>part \<in> set src. lower part = ''thumbnails''
          \<or> (\<exists>n \<in> set (c_skip_folder c). lower part = lower n)" for w'
  proof -
    have "\<exists>part \<in> set src. \<exists>n \<in> set (a_skip_folder args). lower part = lower n"
      using that a lower_thumbnails by (metis list.set_intros(1,2))
    then obtain part n where "part \<in> set src" "n \<in> set (a_skip_folder args)"
      "lower part = lower n"
      by blast
    thus ?thesis
      using skip_folder_no_candidate [of n args part src E w'] by simp
  qed
  show "a_skip_folder args = ''thumbnails'' # c_skip_folder c
     \<and> ''thumbnails'' \<in> set (skip_folders args)
     \<and> set (skip_folders args) = insert ''thumbnails'' (lower ` set (c_skip_folder c))
     \<and> ((\<exists>part \<in> set src. lower part = ''thumbnails''
          \<or> (\<exists>n \<in> set (c_skip_folder c). lower part = lower n)) \<longrightarrow>
          webp_candidate E args w src \<noteq> Inr True
          \<and> snd (webp_step E args st src) = st
          \<and> webp_step E args st src
              = (case is_file E (world st) src of
                   Inl e \<Rightarrow> (Some e, st) | Inr b \<Rightarrow> (None, st)))"
    using a b n [of w] n [of "world st"]
    by (auto simp: webp_step_no_candidate split: sum.splits)
qed

theorem default_skip_folder_witness:
  "parse_args ex_cmdline = Parsed ex_args
   \<and> a_skip_folder ex_args = [''thumbnails'', ''Drafts'']
   \<and> set (skip_folders ex_args) = {''thumbnails'', ''drafts''}
   \<and> webp_candidate ex_env ex_args ex_world [''r'', ''Thumbnails'', ''c.jpg''] \<noteq> Inr True
   \<and> webp_step ex_env ex_args ex_state [''r'', ''Thumbnails'', ''c.jpg''] = (None, ex_state)
   \<and> webp_candidate ex_env ex_args ex_world [''r'', ''DRAFTS'', ''e.jpg''] \<noteq> Inr True"
proof -
  have p: "parse_args ex_cmdline = Parsed ex_args"
    by code_simp
  have l: "lower ''Thumbnails'' = ''thumbnails''" "lower ''DRAFTS'' = lower ''Drafts''"
    "lower ''Drafts'' = ''drafts''"
    by code_simp+
  have c: "c_skip_folder ex_cmdline = [''Drafts'']"
    by (simp add: ex_cmdline_def)
  have f: "is_file ex_env (world ex_state) [''r'', ''Thumbnails'', ''c.jpg''] = Inr True"
    by code_simp
  show ?thesis
    using p l c f
      default_skip_folder [of ex_cmdline ex_args "[''r'', ''Thumbnails'', ''c.jpg'']" ex_env
        ex_world ex_state]
      default_skip_folder [of ex_cmdline ex_args "[''r'', ''DRAFTS'', ''e.jpg'']" ex_env
        ex_world ex_state]
    by simp
qed

section \<open>Skipped files keep their original\<close>

text \<open>
  Claim C10.  In convert-to-webp, whatever \<^verbatim>\<open>--delete-originals\<close> says, a work
  item whose destination is up to date (and no \<^verbatim>\<open>--overwrite\<close>) only adds one to
  the skipped counter: the world, and with it the original, is untouched, and the loop
  goes on.  An iteration that counts a deletion has counted a conversion and no skip.
\<close>

theorem skip_leaves_original:
  "(\<not> a_overwrite args \<and> webp_candidate E args (world st) src = Inr True
      \<and> is_up_to_date E (world st) src (with_suffix src ''.webp'') = Inr True \<longrightarrow>
        webp_step E args st src = (None, st\<lparr>skipped := skipped st + 1\<rparr>))
   \<and> (deleted (snd (webp_step E args st src)) \<noteq> deleted st \<longrightarrow>
        deleted (snd (webp_step E args st src)) = deleted st + 1
        \<and> converted (snd (webp_step E args st src)) = converted st + 1
        \<and> skipped (snd (webp_step E args st src)) = skipped st)"
  by (auto simp: webp_step_def webp_try_def webp_rebuild_def webp_except_def Let_def
      split: sum.splits bool.splits prod.splits option.splits if_splits)

theorem skip_leaves_original_witness:
  "a_delete_originals ex_args
   \<and> webp_step ex_env ex_args ex_state [''r'', ''a.png'']
       = (None, ex_state\<lparr>skipped := 1\<rparr>)
   \<and> regular_file (world (snd (webp_step ex_env ex_args ex_state [''r'', ''a.png''])))
       [''r'', ''a.png'']
   \<and> deleted (snd (webp_step ex_env ex_args ex_state [''r'', ''d.png''])) = 1
   \<and> converted (snd (webp_step ex_env ex_args ex_state [''r'', ''d.png''])) = 1"
proof -
  have h: "\<not> a_overwrite ex_args" "a_delete_originals ex_args"
    "webp_candidate ex_env ex_args (world ex_state) [''r'', ''a.png''] = Inr True"
    "is_up_to_date ex_env (world ex_state) [''r'', ''a.png'']
       (with_suffix [''r'', ''a.png''] ''.webp'') = Inr True"
    "deleted (snd (webp_step ex_env ex_args ex_state [''r'', ''d.png''])) \<noteq> deleted ex_state"
    "deleted ex_state = 0" "converted ex_state = 0" "skipped ex_state = 0"
    "regular_file (world ex_state) [''r'', ''a.png'']"
    by code_simp+
  show ?thesis
    using h
      skip_leaves_original [of ex_args ex_env ex_state "[''r'', ''a.png'']"]
      skip_leaves_original [of ex_args ex_env ex_state "[''r'', ''d.png'']"]
    by simp
qed

section \<open>What the transforms leave alone\<close>

text \<open>
  Creating directories never touches a node that is there already, nothing but
  \<^verbatim>\<open>print\<close> writes to the output, and a regular file stays one through a
  conversion: the only node a conversion writes is its destination, as a regular file.
\<close>

lemma mkdir_rev_keeps:
  "mkdir_rev E w rp = Inr w1 \<Longrightarrow> map_of (files w) p = Some n \<Longrightarrow> map_of (files w1) p = Some n"
proof (induction rp arbitrary: w1)
  case Nil
  then show ?case by simp
next
  case (Cons c rp)
  show ?case
  proof (cases "map_of (files w) (rev (c # rp))")
    case None
    with Cons.prems obtain w0 where w0: "mkdir_rev E w rp = Inr w0"
      and w1: "w1 = w0\<lparr>files := AList.update (rev (c # rp)) (Dir (clock w0) 0) (files w0)\<rparr>"
      by (auto split: option.splits node.splits sum.splits)
    from None Cons.prems(2) have "p \<noteq> rev (c # rp)" by auto
    with Cons.IH [OF w0 Cons.prems(2)] w1 show ?thesis
      by (simp add: update_conv')
  next
    case (Some a)
    with Cons.prems show ?thesis by (cases a) (auto split: option.splits)
  qed
qed

lemma mkdir_rev_frame:
  "mkdir_rev E w rp = Inr w1 \<Longrightarrow> clock w1 = clock w \<and> stdout w1 = stdout w"
  by (induction rp arbitrary: w1) (auto split: option.splits node.splits sum.splits)

lemma save_stdout: "stdout (snd (save E im dst kw w)) = stdout w"
  by (auto simp: save_def split: option.splits node.splits sum.splits)

lemma save_regular_file:
  "regular_file w p \<Longrightarrow> regular_file (snd (save E im dst kw w)) p"
  by (auto simp: save_def regular_file_def update_conv'
      split: option.splits node.splits sum.splits)

lemma convert_one_stdout: "stdout (snd (convert_one E src dst q k w)) = stdout w"
  by (auto simp: convert_one_def mkdir_parents_def Let_def save_stdout
      dest: mkdir_rev_frame split: sum.splits)

lemma make_thumbnail_stdout: "stdout (snd (make_thumbnail E src dst mx q m k w)) = stdout w"
  by (auto simp: make_thumbnail_def mkdir_parents_def Let_def save_stdout
      dest: mkdir_rev_frame split: sum.splits)

lemma mkdir_parents_regular_file:
  "mkdir_parents E w d = Inr w1 \<Longrightarrow> regular_file w p \<Longrightarrow> regular_file w1 p"
  unfolding mkdir_parents_def regular_file_def
  by (auto split: option.splits node.splits dest: mkdir_rev_keeps)

lemma convert_one_regular_file:
  "regular_file w p \<Longrightarrow> regular_file (snd (convert_one E src dst q k w)) p"
  by (auto simp: convert_one_def Let_def save_regular_file
      dest: mkdir_parents_regular_file split: sum.splits)

lemma unlink_other:
  "unlink E w src = Inr w2 \<Longrightarrow> p \<noteq> src \<Longrightarrow> regular_file w2 p = regular_file w p"
  by (auto simp: unlink_def regular_file_def delete_conv'
      split: option.splits node.splits if_splits)

lemma regular_file_print [simp]: "regular_file (print l w) p = regular_file w p"
  by (simp add: regular_file_def print_def)

lemma webp_rebuild_deletes:
  assumes "regular_file (world st) src"
    and "\<not> regular_file (world (snd (webp_rebuild E args src dst st))) src"
  shows "a_delete_originals args \<and>
     (\<exists>w1 d. convert_one E src dst (a_quality args) (a_keep_metadata args) (world st) = (None, w1)
        \<and> exists E w1 dst = Inr True \<and> stat E w1 dst = Inr d \<and> 0 < st_size d)"
proof -
  obtain f w1
    where c: "convert_one E src dst (a_quality args) (a_keep_metadata args) (world st) = (f, w1)"
    by force
  have f1: "regular_file w1 src"
    using convert_one_regular_file [OF assms(1), of E src dst "a_quality args"
        "a_keep_metadata args"] c
    by simp
  show ?thesis
    using assms(2) f1 c
    by (auto simp: webp_rebuild_def Let_def
        split: option.splits sum.splits bool.splits if_splits)
qed

lemma webp_try_deletes:
  assumes "regular_file (world st) src"
    and "\<not> regular_file (world (snd (webp_try E args src dst st))) src"
  shows "a_delete_originals args \<and>
     (\<exists>w1 d. convert_one E src dst (a_quality args) (a_keep_metadata args) (world st) = (None, w1)
        \<and> exists E w1 dst = Inr True \<and> stat E w1 dst = Inr d \<and> 0 < st_size d)"
proof -
  from assms have "\<not> regular_file (world (snd (webp_rebuild E args src dst st))) src"
    by (auto simp: webp_try_def split: sum.splits bool.splits if_splits)
  with assms(1) show ?thesis by (rule webp_rebuild_deletes)
qed

lemma webp_step_world:
  "snd (webp_step E args st src) = st
   \<or> regular_file (world (snd (webp_step E args st src))) p
       = regular_file (world (snd (webp_try E args src (with_suffix src ''.webp'') st))) p"
  by (auto simp: webp_step_def Let_def webp_except_def
      split: prod.splits option.splits sum.splits bool.splits)

lemma webp_rebuild_keeps_others:
  assumes "regular_file (world st) p" "p \<noteq> src"
  shows "regular_file (world (snd (webp_rebuild E args src dst st))) p"
proof -
  obtain f w1
    where c: "convert_one E src dst (a_quality args) (a_keep_metadata args) (world st) = (f, w1)"
    by force
  have f1: "regular_file w1 p"
    using convert_one_regular_file [OF assms(1), of E src dst "a_quality args"
        "a_keep_metadata args"] c
    by simp
  show ?thesis
    using f1 c assms(2)
    by (auto simp: webp_rebuild_def Let_def unlink_other
        split: option.splits sum.splits bool.splits)
qed

lemma webp_try_keeps_others:
  assumes "regular_file (world st) p" "p \<noteq> src"
  shows "regular_file (world (snd (webp_try E args src dst st))) p"
  using assms webp_rebuild_keeps_others [OF assms, of E args dst]
  by (auto simp: webp_try_def split: sum.splits bool.splits)



section \<open>Deleting originals\<close>

text \<open>
  Claim C1.  In convert-to-webp an iteration removes a source file only with
  \<^verbatim>\<open>--delete-originals\<close>, after \<^verbatim>\<open>convert_one\<close> returned without an exception
  and with the destination present and of size greater than zero in the world it left.
  When \<^verbatim>\<open>convert_one\<close> raises, the source is still a file afterwards; and no
  iteration removes a file other than its own source.
\<close>

theorem delete_after_verified_output:
  "(regular_file (world st) src
      \<and> \<not> regular_file (world (snd (webp_step E args st src))) src \<longrightarrow>
      a_delete_originals args \<and>
      (\<exists>w1 d. convert_one E src (with_suffix src ''.webp'') (a_quality args)
                 (a_keep_metadata args) (world st) = (None, w1)
         \<and> exists E w1 (with_suffix src ''.webp'') = Inr True
         \<and> stat E w1 (with_suffix src ''.webp'') = Inr d \<and> 0 < st_size d))
   \<and> (regular_file (world st) src
       \<and> fst (convert_one E src (with_suffix src ''.webp'') (a_quality args)
                 (a_keep_metadata args) (world st)) \<noteq> None \<longrightarrow>
      regular_file (world (snd (webp_step E args st src))) src)
   \<and> (regular_file (world st) p \<and> p \<noteq> src \<longrightarrow>
      regular_file (world (snd (webp_step E args st src))) p)"
proof -
  let ?dst = "with_suffix src ''.webp''"
  have a: "a_delete_originals args \<and>
      (\<exists>w1 d. convert_one E src ?dst (a_quality args) (a_keep_metadata args) (world st)
                 = (None, w1)
         \<and> exists E w1 ?dst = Inr True \<and> stat E w1 ?dst = Inr d \<and> 0 < st_size d)"
    if "regular_file (world st) src"
      "\<not> regular_file (world (snd (webp_step E args st src))) src"
  proof -
    from that webp_step_world [of E args st src src]
    have "\<not> regular_file (world (snd (webp_try E args src ?dst st))) src"
      by auto
    with that(1) show ?thesis by (rule webp_try_deletes)
  qed
  have c: "regular_file (world (snd (webp_step E args st src))) p"
    if "regular_file (world st) p" "p \<noteq> src"
    using that webp_step_world [of E args st src p]
      webp_try_keeps_others [OF that, of E args ?dst]
    by auto
  from a c show ?thesis by force
qed

theorem delete_after_verified_output_witness:
  "regular_file (world ex_state) [''r'', ''d.png'']
   \<and> \<not> regular_file (world (snd (webp_step ex_env ex_args ex_state [''r'', ''d.png''])))
         [''r'', ''d.png'']
   \<and> a_delete_originals ex_args
   \<and> (\<exists>w1 d. convert_one ex_env [''r'', ''d.png''] (with_suffix [''r'', ''d.png''] ''.webp'')
                 (a_quality ex_args) (a_keep_metadata ex_args) (world ex_state) = (None, w1)
         \<and> exists ex_env w1 (with_suffix [''r'', ''d.png''] ''.webp'') = Inr True
         \<and> stat ex_env w1 (with_suffix [''r'', ''d.png''] ''.webp'') = Inr d \<and> 0 < st_size d)
   \<and> fst (convert_one ex_env [''r'', ''b.jpg''] (with_suffix [''r'', ''b.jpg''] ''.webp'')
                 (a_quality ex_args) (a_keep_metadata ex_args) (world ex_state)) \<noteq> None
   \<and> regular_file (world (snd (webp_step ex_env ex_args ex_state [''r'', ''b.jpg''])))
       [''r'', ''b.jpg'']
   \<and> regular_file (world (snd (webp_step ex_env ex_args ex_state [''r'', ''d.png''])))
       [''r'', ''b.jpg'']"
proof -
  have h: "regular_file (world ex_state) [''r'', ''d.png'']"
    "\<not> regular_file (world (snd (webp_step ex_env ex_args ex_state [''r'', ''d.png''])))
         [''r'', ''d.png'']"
    "regular_file (world ex_state) [''r'', ''b.jpg'']"
    "fst (convert_one ex_env [''r'', ''b.jpg''] (with_suffix [''r'', ''b.jpg''] ''.webp'')
                 (a_quality ex_args) (a_keep_metadata ex_args) (world ex_state)) \<noteq> None"
    by code_simp+
  have n: "[''r'', ''b.jpg''] \<noteq> [''r'', ''d.png'']"
    by simp
  show ?thesis
    using h n
      delete_after_verified_output [of ex_state "[''r'', ''d.png'']" ex_env ex_args
        "[''r'', ''b.jpg'']"]
      delete_after_verified_output [of ex_state "[''r'', ''b.jpg'']" ex_env ex_args
        "[''r'', ''b.jpg'']"]
    by blast
qed

section \<open>Per-file errors\<close>














section \<open>Exit status\<close>







end
